theory Spec2Isabelle
  imports Main "HOL-Library.Word"
begin

section \<open>Python values, exceptions and the outside world\<close>

text \<open>
  The program is \<^verbatim>\<open>examples/01_run_task_resources/lambda/main.py\<close>: one request
  handler and four helpers. Everything the handler touches is a Python value that came
  out of a JSON document (the event, the parsed request body, the plan document), so
  values are modelled by one datatype. A \<^verbatim>\<open>str\<close> is represented by the bytes of its
  UTF-8 encoding. A \<^verbatim>\<open>str\<close> can also hold a lone surrogate (a code point from U+D800
  to U+DFFF, which \<^verbatim>\<open>json.loads\<close> produces from the escape of such a code point); it
  is represented by the three bytes that the same encoding scheme gives it, \<^verbatim>\<open>ED\<close>
  followed by a byte from \<^verbatim>\<open>A0\<close> to \<^verbatim>\<open>BF\<close> and one more, a sequence that occurs in
  the encoding of no other string. On this representation \<^verbatim>\<open>s.encode()\<close> returns the
  bytes unchanged when the string holds no surrogate and raises otherwise, and "ASCII
  only" is the property that every byte is below 128. A \<^verbatim>\<open>dict\<close> is an
  association list read with \<open>map_of\<close>. Floating point numbers do not occur in any
  field the program reads and are left out.
\<close>

datatype pyval =
    PNone
  | PBool bool
  | PInt int
  | PStr string
  | PBytes string
  | PList "pyval list"
  | PDict "(string \<times> pyval) list"

text \<open>
  Exceptions are values. \<open>KeyError k\<close> is raised by \<^verbatim>\<open>d[k]\<close> on a dict without the
  key, \<open>AttributeError v a\<close> by \<^verbatim>\<open>v.a\<close> on a value without that attribute,
  \<open>TypeError op v\<close> by the operation \<open>op\<close> applied to the unsuitable operand \<open>v\<close>,
  \<open>UnicodeEncodeError v\<close> by \<^verbatim>\<open>v.encode()\<close> on a string with a lone surrogate.
  \<open>Raised d\<close> is any exception that comes out of a library routine or the network
  (\<^verbatim>\<open>URLError\<close>, \<^verbatim>\<open>HTTPError\<close>, \<^verbatim>\<open>JSONDecodeError\<close>, \<^verbatim>\<open>ValueError\<close>, ...), named
  by a description. All of them are subclasses of \<^verbatim>\<open>Exception\<close>.
\<close>

datatype exn =
    KeyError string
  | AttributeError pyval string
  | TypeError string pyval
  | UnicodeEncodeError pyval
  | Raised string

text \<open>
  A \<^verbatim>\<open>urllib.request.Request\<close>: the URL as the program passes it (a value taken
  from the request body may be anything), the header dictionary, the data and the
  method (\<open>None\<close> where the program gives none).
\<close>

record http_request =
  req_url :: pyval
  req_headers :: "(string \<times> string) list"
  req_data :: "string option"
  req_method :: "string option"

text \<open>The only field of \<^verbatim>\<open>datetime.datetime\<close> the program reads is the minute.\<close>

record datetime =
  year :: int
  month :: int
  day :: int
  hour :: int
  minute :: int
  second :: int

text \<open>
  What the program does not define itself is a parameter of the model: the process
  environment, the network, and the routines of the standard library.
  \<^item> \<open>environ\<close> is \<^verbatim>\<open>os.environ\<close>;
  \<^item> \<open>urlopen\<close> is \<^verbatim>\<open>urllib.request.urlopen(Request(...))\<close> followed by
    \<^verbatim>\<open>read()\<close>: the bytes of the response, or the exception raised on the way;
  \<^item> \<open>json_loads\<close> and \<open>json_dumps\<close> are \<^verbatim>\<open>json.loads\<close> and \<^verbatim>\<open>json.dumps\<close>;
  \<^item> \<open>hmac_sha512 key msg\<close> is the 64-byte digest of
    \<^verbatim>\<open>hmac.new(key, msg, hashlib.sha512)\<close>, as a 512-bit word;
  \<^item> \<open>py_str\<close> is \<^verbatim>\<open>str(v)\<close>, used by the f-strings, and \<open>str_exn\<close> is
    \<^verbatim>\<open>str(e)\<close> on an exception;
  \<^item> \<open>fromisoformat\<close> is \<^verbatim>\<open>datetime.datetime.fromisoformat\<close>.
  Within one invocation the three requests the program can send differ in their
  headers, so a function of the request describes any behaviour of the network.
\<close>

record pylib =
  environ :: "string \<Rightarrow> string option"
  urlopen :: "http_request \<Rightarrow> exn + string"
  json_loads :: "pyval \<Rightarrow> exn + pyval"
  json_dumps :: "pyval \<Rightarrow> string"
  hmac_sha512 :: "string \<Rightarrow> string \<Rightarrow> 512 word"
  py_str :: "pyval \<Rightarrow> string"
  str_exn :: "exn \<Rightarrow> string"
  fromisoformat :: "pyval \<Rightarrow> exn + datetime"

section \<open>Runs: the calls made, and the outcome\<close>

text \<open>
  Several properties say which helpers are invoked and with which arguments. A run
  therefore carries the calls made so far, in order, beside its outcome: a returned
  value or the exception that ended it.
\<close>

datatype call =
    Get_parameter string
  | Get_plan_json pyval
  | Verify_hmac pyval pyval pyval
  | Notify_result pyval string string
  | Urlopen http_request

type_synonym 'a run = "call list \<times> (exn + 'a)"

definition ret :: "'a \<Rightarrow> 'a run" where
  "ret x = ([], Inr x)"

definition lift :: "exn + 'a \<Rightarrow> 'a run" where
  "lift r = ([], r)"

definition bind :: "'a run \<Rightarrow> ('a \<Rightarrow> 'b run) \<Rightarrow> 'b run" where
  "bind m f =
     (case snd m of
        Inl e \<Rightarrow> (fst m, Inl e)
      | Inr x \<Rightarrow> (fst m @ fst (f x), snd (f x)))"

definition invoke :: "call \<Rightarrow> 'a run \<Rightarrow> 'a run" where
  "invoke c m = (c # fst m, snd m)"

definition send :: "pylib \<Rightarrow> http_request \<Rightarrow> string run" where
  "send L req = ([Urlopen req], urlopen L req)"

section \<open>Operations of the interpreter the program uses\<close>

text \<open>\<^verbatim>\<open>d.get(k, default)\<close> on the event, which is a dict by its type.\<close>

definition dict_get :: "(string \<times> pyval) list \<Rightarrow> string \<Rightarrow> pyval \<Rightarrow> pyval" where
  "dict_get d k dflt = (case map_of d k of None \<Rightarrow> dflt | Some v \<Rightarrow> v)"

text \<open>\<^verbatim>\<open>d[k]\<close> on the event: a missing key raises.\<close>

definition dict_item :: "(string \<times> pyval) list \<Rightarrow> string \<Rightarrow> exn + pyval" where
  "dict_item d k = (case map_of d k of None \<Rightarrow> Inl (KeyError k) | Some v \<Rightarrow> Inr v)"

text \<open>\<^verbatim>\<open>v.get(k, default)\<close> on any value: only a dict has the method.\<close>

fun py_get :: "pyval \<Rightarrow> string \<Rightarrow> pyval \<Rightarrow> exn + pyval" where
  "py_get (PDict d) k dflt = Inr (dict_get d k dflt)"
| "py_get v k dflt = Inl (AttributeError v ''get'')"

text \<open>
  \<^verbatim>\<open>v[k]\<close> with a string key on any value: a dict without the key raises
  \<^verbatim>\<open>KeyError\<close>, every other value raises \<^verbatim>\<open>TypeError\<close> (not subscriptable, or
  indices must be integers).
\<close>

fun py_item :: "pyval \<Rightarrow> string \<Rightarrow> exn + pyval" where
  "py_item (PDict d) k = dict_item d k"
| "py_item v k = Inl (TypeError ''subscript'' v)"

text \<open>
  Whether a string holds a surrogate: the byte \<^verbatim>\<open>ED\<close> followed by a byte from
  \<^verbatim>\<open>A0\<close> to \<^verbatim>\<open>BF\<close>.
\<close>

fun has_surrogate :: "string \<Rightarrow> bool" where
  "has_surrogate (a # b # s) =
     (((of_char a :: nat) = 0xED \<and> 0xA0 \<le> (of_char b :: nat) \<and> (of_char b :: nat) \<le> 0xBF)
      \<or> has_surrogate (b # s))"
| "has_surrogate s = False"

text \<open>
  \<^verbatim>\<open>v.encode()\<close>: only a \<^verbatim>\<open>str\<close> has the method, and the UTF-8 codec refuses
  a surrogate.
\<close>

fun py_encode :: "pyval \<Rightarrow> exn + string" where
  "py_encode (PStr s) = (if has_surrogate s then Inl (UnicodeEncodeError (PStr s)) else Inr s)"
| "py_encode v = Inl (AttributeError v ''encode'')"

text \<open>The string an f-string puts in place of \<^verbatim>\<open>{v}\<close>.\<close>

fun fstring :: "pylib \<Rightarrow> pyval \<Rightarrow> string" where
  "fstring L (PStr s) = s"
| "fstring L v = py_str L v"

definition is_ascii :: "string \<Rightarrow> bool" where
  "is_ascii s = list_all (\<lambda>c. (of_char c :: nat) < 128) s"

text \<open>
  \<^verbatim>\<open>hmac.compare_digest(a, b)\<close>: both arguments are \<^verbatim>\<open>str\<close> and ASCII only, or
  both are bytes; anything else raises \<^verbatim>\<open>TypeError\<close>.
\<close>

fun compare_digest :: "pyval \<Rightarrow> pyval \<Rightarrow> exn + bool" where
  "compare_digest (PStr a) (PStr b) =
     (if is_ascii a \<and> is_ascii b then Inr (a = b)
      else Inl (TypeError ''compare_digest'' (PStr b)))"
| "compare_digest (PBytes a) (PBytes b) = Inr (a = b)"
| "compare_digest a b = Inl (TypeError ''compare_digest'' b)"

text \<open>\<^verbatim>\<open>hexdigest()\<close>: the 64 bytes as 128 lower-case hexadecimal digits.\<close>

definition hex_digit :: "nat \<Rightarrow> char" where
  "hex_digit n = ''0123456789abcdef'' ! (n mod 16)"

definition hexdigest :: "512 word \<Rightarrow> string" where
  "hexdigest w = map (\<lambda>i. hex_digit (unat w div 16 ^ (127 - i))) [0..<128]"

section \<open>The helpers\<close>

text \<open>Lines 24 to 28: the request to the parameter store extension.\<close>

definition parameter_request :: "pylib \<Rightarrow> string \<Rightarrow> http_request" where
  "parameter_request L name =
     \<lparr>req_url = PStr (''http://localhost:2773/systemsmanager/parameters/get?name=''
                        @ name @ ''&withDecryption=true''),
      req_headers = [(''X-Aws-Parameters-Secrets-Token'',
                      (case environ L ''AWS_SESSION_TOKEN'' of None \<Rightarrow> '''' | Some v \<Rightarrow> v))],
      req_data = None, req_method = None\<rparr>"

text \<open>Lines 11 to 31.\<close>

definition get_parameter :: "pylib \<Rightarrow> string \<Rightarrow> pyval run" where
  "get_parameter L name =
     invoke (Get_parameter name)
       (bind (send L (parameter_request L name)) (\<lambda>raw.
        bind (lift (json_loads L (PBytes raw))) (\<lambda>response.
        bind (lift (py_item response ''Parameter'')) (\<lambda>parameter.
        lift (py_item parameter ''Value'')))))"

text \<open>Lines 46 to 50: the request for the plan.\<close>

definition plan_request :: "pylib \<Rightarrow> pyval \<Rightarrow> pyval \<Rightarrow> http_request" where
  "plan_request L url access_token =
     \<lparr>req_url = url,
      req_headers = [(''Authorization'', ''Bearer '' @ fstring L access_token),
                     (''Content-type'', ''application/vnd.api+json'')],
      req_data = None, req_method = None\<rparr>"

text \<open>Lines 34 to 53.\<close>

definition get_plan_json :: "pylib \<Rightarrow> pyval \<Rightarrow> pyval run" where
  "get_plan_json L request_body =
     invoke (Get_plan_json request_body)
       (bind (lift (py_get request_body ''plan_json_api_url'' PNone)) (\<lambda>url.
        bind (lift (py_get request_body ''access_token'' PNone)) (\<lambda>access_token.
        bind (send L (plan_request L url access_token)) (\<lambda>raw.
        lift (json_loads L (PBytes raw))))))"

text \<open>
  Lines 56 to 72. The arguments of \<^verbatim>\<open>hmac.new\<close> are evaluated from left to right:
  the secret is encoded first.
\<close>

definition verify_hmac :: "pylib \<Rightarrow> pyval \<Rightarrow> pyval \<Rightarrow> pyval \<Rightarrow> bool run" where
  "verify_hmac L payload signature secret =
     invoke (Verify_hmac payload signature secret)
       (bind (lift (py_encode secret)) (\<lambda>key.
        bind (lift (py_encode payload)) (\<lambda>msg.
        lift (compare_digest (PStr (hexdigest (hmac_sha512 L key msg))) signature))))"

text \<open>Lines 89 to 102: the request to the callback URL.\<close>

definition callback_request ::
  "pylib \<Rightarrow> pyval \<Rightarrow> pyval \<Rightarrow> string \<Rightarrow> string \<Rightarrow> http_request" where
  "callback_request L callback_url access_token status message =
     \<lparr>req_url = callback_url,
      req_headers = [(''Authorization'', ''Bearer '' @ fstring L access_token),
                     (''Content-Type'', ''application/vnd.api+json'')],
      req_data = Some (json_dumps L
          (PDict [(''data'',
             PDict [(''type'', PStr ''task-results''),
                    (''attributes'',
                     PDict [(''status'', PStr status), (''message'', PStr message)])])])),
      req_method = Some ''PATCH''\<rparr>"

text \<open>Lines 75 to 103.\<close>

definition notify_result :: "pylib \<Rightarrow> pyval \<Rightarrow> string \<Rightarrow> string \<Rightarrow> unit run" where
  "notify_result L request_body status message =
     invoke (Notify_result request_body status message)
       (bind (lift (py_get request_body ''task_result_callback_url'' PNone)) (\<lambda>callback_url.
        bind (lift (py_get request_body ''access_token'' PNone)) (\<lambda>access_token.
        bind (send L (callback_request L callback_url access_token status message)) (\<lambda>res.
        ret ()))))"

section \<open>The handler\<close>

record response =
  statusCode :: int
  body :: string

text \<open>
  Lines 128 to 190, the body of the \<^verbatim>\<open>try\<close>. The \<^verbatim>\<open>print\<close> calls write to the
  log and are left out; the unused \<^verbatim>\<open>context\<close> argument is dropped.
\<close>

definition handler_try :: "pylib \<Rightarrow> (string \<times> pyval) list \<Rightarrow> response run" where
  "handler_try L event =
     bind (lift (case environ L ''HMAC_SECRET_KEY_PARAM'' of
                   None \<Rightarrow> Inl (KeyError ''HMAC_SECRET_KEY_PARAM'') | Some n \<Rightarrow> Inr n)) (\<lambda>name.
     bind (get_parameter L name) (\<lambda>hmac_key.
     bind (lift (json_loads L (dict_get event ''body'' (PStr ''{}'')))) (\<lambda>request_body.
     bind (lift (py_get (dict_get event ''headers'' (PDict [])) ''x-tfc-task-signature'' (PStr '''')))
       (\<lambda>signature.
     bind (lift (dict_item event ''body'')) (\<lambda>raw.
     bind (verify_hmac L raw signature hmac_key) (\<lambda>ok.
     if \<not> ok then
       ret \<lparr>statusCode = 401,
            body = json_dumps L (PDict [(''message'', PStr ''Invalid signature'')])\<rparr>
     else
     bind (lift (py_get request_body ''task_result_enforcement_level'' PNone)) (\<lambda>level.
     if level = PStr ''test'' then
       ret \<lparr>statusCode = 200,
            body = json_dumps L
                (PDict [(''data'',
                   PDict [(''type'', PStr ''task-results''),
                          (''attributes'',
                           PDict [(''status'', PStr ''passed''), (''message'', PStr ''Configuration successful'')])])])\<rparr>
     else
     bind (get_plan_json L request_body) (\<lambda>plan_json.
     bind (lift (py_item plan_json ''timestamp'')) (\<lambda>ts.
     bind (lift (fromisoformat L ts)) (\<lambda>plan_timestamp.
     let validation_passed = (minute plan_timestamp mod 2 = 0);
         message = (if validation_passed then ''Validation passed'' else ''Validation failed'');
         status = (if validation_passed then ''passed'' else ''failed'')
     in
     bind (notify_result L request_body status message) (\<lambda>u.
     ret \<lparr>statusCode = 200, body = json_dumps L
         (PDict [(''data'',
            PDict [(''type'', PStr ''task-results''),
                   (''attributes'',
                    PDict [(''status'', PStr status), (''message'', PStr message)])])])\<rparr>)))))))))))"

text \<open>Lines 192 to 200: every exception becomes the 500 response.\<close>

definition internal_error :: "pylib \<Rightarrow> exn \<Rightarrow> response" where
  "internal_error L e =
     \<lparr>statusCode = 500,
      body = json_dumps L (PDict [(''message'', PStr (''Internal error: '' @ str_exn L e))])\<rparr>"

definition handler :: "pylib \<Rightarrow> (string \<times> pyval) list \<Rightarrow> call list \<times> response" where
  "handler L event =
     (case snd (handler_try L event) of
        Inl e \<Rightarrow> (fst (handler_try L event), internal_error L e)
      | Inr r \<Rightarrow> (fst (handler_try L event), r))"

section \<open>Reading a run\<close>

text \<open>
  What a test double records: the arguments of every invocation of
  \<^verbatim>\<open>get_plan_json\<close>, of \<^verbatim>\<open>notify_result\<close> and of \<^verbatim>\<open>verify_hmac\<close>, in order.
  A helper that was never invoked leaves the empty list.
\<close>

fun plan_fetches :: "call list \<Rightarrow> pyval list" where
  "plan_fetches [] = []"
| "plan_fetches (Get_plan_json b # t) = b # plan_fetches t"
| "plan_fetches (c # t) = plan_fetches t"

fun notifications :: "call list \<Rightarrow> (pyval \<times> string \<times> string) list" where
  "notifications [] = []"
| "notifications (Notify_result b s m # t) = (b, s, m) # notifications t"
| "notifications (c # t) = notifications t"

fun verifications :: "call list \<Rightarrow> (pyval \<times> pyval \<times> pyval) list" where
  "verifications [] = []"
| "verifications (Verify_hmac p s k # t) = (p, s, k) # verifications t"
| "verifications (c # t) = verifications t"

text \<open>The status and the message of a notification, without the request body.\<close>

definition outcome :: "pyval \<times> string \<times> string \<Rightarrow> string \<times> string" where
  "outcome n = (fst (snd n), snd (snd n))"

section \<open>A small world for the closed examples\<close>

text \<open>
  The theorems below hold for every environment, network and library. The closed
  examples run the handler in one small world: a parameter store that holds the secret
  \<^verbatim>\<open>s3cret\<close>, two plan documents (minute 14 and minute 15), one callback URL that
  answers and none other, and library routines that are right on the documents of
  this world. \<open>demo_json_dumps\<close> writes dicts and strings the way \<^verbatim>\<open>json.dumps\<close>
  does when no character needs an escape; \<open>demo_hmac\<close> stands for the keyed hash (no
  example depends on the value of a digest).
\<close>

definition demo_environ :: "string \<Rightarrow> string option" where
  "demo_environ name =
     (if name = ''HMAC_SECRET_KEY_PARAM'' then Some ''/run-task/hmac-key''
      else if name = ''AWS_SESSION_TOKEN'' then Some ''session-token''
      else None)"

definition demo_urlopen :: "http_request \<Rightarrow> exn + string" where
  \<open>demo_urlopen req =
     (if req_url req = PStr (''http://localhost:2773/systemsmanager/parameters/get?name=''
                             @ ''/run-task/hmac-key'' @ ''&withDecryption=true'')
      then Inr ''{"Parameter": {"Value": "s3cret"}}''
      else if req_url req = PStr ''https://plan.example/even''
      then Inr ''{"timestamp": "2024-01-01T10:14:00+00:00"}''
      else if req_url req = PStr ''https://plan.example/odd''
      then Inr ''{"timestamp": "2024-01-01T10:15:00+00:00"}''
      else if req_url req = PStr ''https://callback.example/up''
      then Inr []
      else Inl (Raised ''urlopen error''))\<close>

definition handshake_body :: string where
  \<open>handshake_body = ''{"task_result_enforcement_level": "test"}''\<close>

definition even_body :: string where
  \<open>even_body = ''{"plan_json_api_url": "https://plan.example/even", "task_result_callback_url": "https://callback.example/up"}''\<close>

definition odd_body :: string where
  \<open>odd_body = ''{"plan_json_api_url": "https://plan.example/odd", "task_result_callback_url": "https://callback.example/up"}''\<close>

definition unreachable_plan_body :: string where
  \<open>unreachable_plan_body = ''{"plan_json_api_url": "https://plan.example/gone"}''\<close>

definition unreachable_callback_body :: string where
  \<open>unreachable_callback_body = ''{"plan_json_api_url": "https://plan.example/odd", "task_result_callback_url": "https://callback.example/down"}''\<close>

text \<open>The request bodies above, parsed, and the two plan documents.\<close>

definition even_fields :: "(string \<times> pyval) list" where
  "even_fields =
     [(''plan_json_api_url'', PStr ''https://plan.example/even''),
      (''task_result_callback_url'', PStr ''https://callback.example/up'')]"

definition odd_fields :: "(string \<times> pyval) list" where
  "odd_fields =
     [(''plan_json_api_url'', PStr ''https://plan.example/odd''),
      (''task_result_callback_url'', PStr ''https://callback.example/up'')]"

definition unreachable_plan_fields :: "(string \<times> pyval) list" where
  "unreachable_plan_fields = [(''plan_json_api_url'', PStr ''https://plan.example/gone'')]"

definition unreachable_callback_fields :: "(string \<times> pyval) list" where
  "unreachable_callback_fields =
     [(''plan_json_api_url'', PStr ''https://plan.example/odd''),
      (''task_result_callback_url'', PStr ''https://callback.example/down'')]"

definition even_plan :: pyval where
  "even_plan = PDict [(''timestamp'', PStr ''2024-01-01T10:14:00+00:00'')]"

definition odd_plan :: pyval where
  "odd_plan = PDict [(''timestamp'', PStr ''2024-01-01T10:15:00+00:00'')]"

definition demo_documents :: "(pyval \<times> pyval) list" where
  \<open>demo_documents =
     [(PStr ''{}'', PDict []),
      (PBytes ''{"Parameter": {"Value": "s3cret"}}'',
       PDict [(''Parameter'', PDict [(''Value'', PStr ''s3cret'')])]),
      (PBytes ''{"timestamp": "2024-01-01T10:14:00+00:00"}'', even_plan),
      (PBytes ''{"timestamp": "2024-01-01T10:15:00+00:00"}'', odd_plan),
      (PStr handshake_body, PDict [(''task_result_enforcement_level'', PStr ''test'')]),
      (PStr even_body, PDict even_fields),
      (PStr odd_body, PDict odd_fields),
      (PStr unreachable_plan_body, PDict unreachable_plan_fields),
      (PStr unreachable_callback_body, PDict unreachable_callback_fields)]\<close>

definition demo_json_loads :: "pyval \<Rightarrow> exn + pyval" where
  "demo_json_loads v =
     (case map_of demo_documents v of
        None \<Rightarrow> Inl (Raised ''JSONDecodeError'')
      | Some d \<Rightarrow> Inr d)"

definition quoted :: "string \<Rightarrow> string" where
  "quoted s = CHR 0x22 # s @ [CHR 0x22]"

fun demo_json_dumps :: "pyval \<Rightarrow> string"
  and demo_items :: "(string \<times> pyval) list \<Rightarrow> string" where
  "demo_json_dumps (PStr s) = quoted s"
| "demo_json_dumps (PDict d) = ''{'' @ demo_items d @ ''}''"
| "demo_json_dumps v = ''null''"
| "demo_items [] = []"
| "demo_items [(k, v)] = quoted k @ '': '' @ demo_json_dumps v"
| "demo_items ((k, v) # kvs) = quoted k @ '': '' @ demo_json_dumps v @ '', '' @ demo_items kvs"

definition demo_hmac :: "string \<Rightarrow> string \<Rightarrow> 512 word" where
  "demo_hmac key msg =
     word_of_nat (foldl (\<lambda>a c. 257 * a + of_char c + 1) 0 (key @ CHR 0x00 # msg))"

fun demo_py_str :: "pyval \<Rightarrow> string" where
  "demo_py_str PNone = ''None''"
| "demo_py_str (PBool b) = (if b then ''True'' else ''False'')"
| "demo_py_str (PStr s) = s"
| "demo_py_str v = ''...''"

fun demo_str_exn :: "exn \<Rightarrow> string" where
  "demo_str_exn (KeyError k) = CHR 0x27 # k @ [CHR 0x27]"
| "demo_str_exn (AttributeError v a) = ''object has no attribute '' @ a"
| "demo_str_exn (TypeError opn v) = ''unsupported operand for '' @ opn"
| "demo_str_exn (UnicodeEncodeError v) = ''surrogates not allowed''"
| "demo_str_exn (Raised d) = d"

definition demo_fromisoformat :: "pyval \<Rightarrow> exn + datetime" where
  "demo_fromisoformat v =
     (if v = PStr ''2024-01-01T10:14:00+00:00''
      then Inr \<lparr>year = 2024, month = 1, day = 1, hour = 10, minute = 14, second = 0\<rparr>
      else if v = PStr ''2024-01-01T10:15:00+00:00''
      then Inr \<lparr>year = 2024, month = 1, day = 1, hour = 10, minute = 15, second = 0\<rparr>
      else Inl (Raised ''Invalid isoformat string''))"

definition demo :: pylib where
  "demo = \<lparr>environ = demo_environ, urlopen = demo_urlopen, json_loads = demo_json_loads,
           json_dumps = demo_json_dumps, hmac_sha512 = demo_hmac, py_str = demo_py_str,
           str_exn = demo_str_exn, fromisoformat = demo_fromisoformat\<rparr>"

text \<open>The signature that belongs to a body in this world, and an event that carries it.\<close>

definition demo_signature :: "string \<Rightarrow> string" where
  "demo_signature raw = hexdigest (demo_hmac ''s3cret'' raw)"

definition signed_event :: "string \<Rightarrow> (string \<times> pyval) list" where
  "signed_event raw =
     [(''body'', PStr raw),
      (''headers'', PDict [(''x-tfc-task-signature'', PStr (demo_signature raw))])]"

text \<open>Two events with a signature that is not the digest of their body.\<close>

definition forged_event :: "(string \<times> pyval) list" where
  "forged_event =
     [(''body'', PStr handshake_body),
      (''headers'', PDict [(''x-tfc-task-signature'', PStr ''bad'')])]"

definition malformed_event :: "(string \<times> pyval) list" where
  "malformed_event =
     [(''body'', PStr ''not json''),
      (''headers'', PDict [(''x-tfc-task-signature'', PStr ''bad'')])]"


definition bodyless_event :: "(string \<times> pyval) list" where
  "bodyless_event =
     [(''headers'', PDict [(''x-tfc-task-signature'', PStr (demo_signature ''{}''))])]"

text \<open>The same world with the callback URL out of reach.\<close>

definition demo_down :: pylib where
  "demo_down =
     demo\<lparr>urlopen := (\<lambda>req. if req_url req = PStr ''https://callback.example/up''
                             then Inl (Raised ''urlopen error'') else demo_urlopen req)\<rparr>"

section \<open>Runs\<close>

lemma fst_bind: "fst (bind m f) = fst m @ (case snd m of Inl e \<Rightarrow> [] | Inr x \<Rightarrow> fst (f x))"
  by (simp add: bind_def split: sum.split)

lemma snd_bind: "snd (bind m f) = (case snd m of Inl e \<Rightarrow> Inl e | Inr x \<Rightarrow> snd (f x))"
  by (simp add: bind_def split: sum.split)

lemma fst_lift: "fst (lift r) = []"
  by (simp add: lift_def)

lemma snd_lift: "snd (lift r) = r"
  by (simp add: lift_def)

lemma fst_ret: "fst (ret x) = []"
  by (simp add: ret_def)

lemma snd_ret: "snd (ret x) = Inr x"
  by (simp add: ret_def)

lemma fst_invoke: "fst (invoke c m) = c # fst m"
  by (simp add: invoke_def)

lemma snd_invoke: "snd (invoke c m) = snd m"
  by (simp add: invoke_def)

lemma fst_send: "fst (send L r) = [Urlopen r]"
  by (simp add: send_def)

lemma snd_send: "snd (send L r) = urlopen L r"
  by (simp add: send_def)

lemmas run_simps = fst_bind snd_bind fst_lift snd_lift fst_ret snd_ret fst_invoke snd_invoke
  fst_send snd_send

lemma plan_fetches_append: "plan_fetches (s @ t) = plan_fetches s @ plan_fetches t"
  by (induction s rule: plan_fetches.induct) simp_all

lemma notifications_append: "notifications (s @ t) = notifications s @ notifications t"
  by (induction s rule: notifications.induct) simp_all

lemma verifications_append: "verifications (s @ t) = verifications s @ verifications t"
  by (induction s rule: verifications.induct) simp_all

lemmas append_simps = plan_fetches_append notifications_append verifications_append

section \<open>The calls each helper makes\<close>

lemma fst_get_parameter:
  "fst (get_parameter L n) = [Get_parameter n, Urlopen (parameter_request L n)]"
  by (simp add: get_parameter_def run_simps split: sum.split)

lemma fst_verify_hmac: "fst (verify_hmac L p s k) = [Verify_hmac p s k]"
  by (simp add: verify_hmac_def run_simps split: sum.split)

lemma fst_get_plan_json:
  "fst (get_plan_json L (PDict d)) =
     [Get_plan_json (PDict d),
      Urlopen (plan_request L (dict_get d ''plan_json_api_url'' PNone)
                 (dict_get d ''access_token'' PNone))]"
  by (simp add: get_plan_json_def run_simps split: sum.split)

lemma fst_notify_result:
  "fst (notify_result L (PDict d) s m) =
     [Notify_result (PDict d) s m,
      Urlopen (callback_request L (dict_get d ''task_result_callback_url'' PNone)
                 (dict_get d ''access_token'' PNone) s m)]"
  by (simp add: notify_result_def run_simps split: sum.split)

lemma calls_get_plan_json:
  "verifications (fst (get_plan_json L b)) = []"
  "plan_fetches (fst (get_plan_json L b)) = [b]"
  "notifications (fst (get_plan_json L b)) = []"
  by (simp_all add: get_plan_json_def run_simps split: sum.split)

lemma calls_notify_result:
  "verifications (fst (notify_result L b s m)) = []"
  "plan_fetches (fst (notify_result L b s m)) = []"
  "notifications (fst (notify_result L b s m)) = [(b, s, m)]"
  by (simp_all add: notify_result_def run_simps split: sum.split)

section \<open>The signature verifier\<close>

lemma length_hexdigest: "length (hexdigest w) = 128"
  by (simp add: hexdigest_def)

lemma hexdigest_neq: "length s \<noteq> 128 \<Longrightarrow> s \<noteq> hexdigest w"
  using length_hexdigest by auto

lemma hex_digit_mem: "hex_digit n \<in> set ''0123456789abcdef''"
proof -
  have "n mod 16 < length ''0123456789abcdef''" by simp
  then show ?thesis
    unfolding hex_digit_def by (rule nth_mem)
qed

lemma hex_chars_ascii: "list_all (\<lambda>c. (of_char c :: nat) < 128) ''0123456789abcdef''"
  by simp

lemma hex_digit_ascii: "(of_char (hex_digit n) :: nat) < 128"
  using hex_digit_mem [of n] hex_chars_ascii unfolding list_all_iff by blast

lemma is_ascii_hexdigest: "is_ascii (hexdigest w)"
  by (simp add: is_ascii_def hexdigest_def list_all_iff hex_digit_ascii)

text \<open>
  On a signature that is a \<^verbatim>\<open>str\<close> of ASCII characters the verifier is the
  comparison with the digest: it accepts the digest and rejects every other string.
\<close>

lemma verify_hmac_accepts:
  "\<not> has_surrogate k \<Longrightarrow> \<not> has_surrogate p \<Longrightarrow>
   snd (verify_hmac L (PStr p) (PStr (hexdigest (hmac_sha512 L k p))) (PStr k)) = Inr True"
  by (simp add: verify_hmac_def run_simps is_ascii_hexdigest)

lemma verify_hmac_rejects:
  "\<not> has_surrogate k \<Longrightarrow> \<not> has_surrogate p \<Longrightarrow>
   is_ascii sg \<Longrightarrow> sg \<noteq> hexdigest (hmac_sha512 L k p) \<Longrightarrow>
   snd (verify_hmac L (PStr p) (PStr sg) (PStr k)) = Inr False"
  by (auto simp add: verify_hmac_def run_simps is_ascii_hexdigest)

text \<open>
  A secret or a body with a lone surrogate cannot be encoded: the verifier raises, first
  for the secret, then for the body.
\<close>

lemma verify_hmac_raises_on_surrogate_secret:
  "has_surrogate k \<Longrightarrow>
   snd (verify_hmac L p sg (PStr k)) = Inl (UnicodeEncodeError (PStr k))"
  by (simp add: verify_hmac_def run_simps)

lemma verify_hmac_raises_on_surrogate_body:
  "\<not> has_surrogate k \<Longrightarrow> has_surrogate p \<Longrightarrow>
   snd (verify_hmac L (PStr p) sg (PStr k)) = Inl (UnicodeEncodeError (PStr p))"
  by (simp add: verify_hmac_def run_simps)


text \<open>
  C2. \<^verbatim>\<open>verify_hmac\<close> is to return true on the hexadecimal HMAC-SHA512 digest of the
  body and false on every signature that differs from it. Where the secret and the body
  can be encoded, the first half is \<open>verify_hmac_accepts\<close>, and
  \<open>verify_hmac_rejects\<close> is the second half for ASCII signatures. On a signature with a character outside ASCII the function returns
  nothing: \<^verbatim>\<open>hmac.compare_digest\<close> raises \<^verbatim>\<open>TypeError\<close>, here on the two bytes of
  U+00E9, for every library, with the empty body and the secret \<^verbatim>\<open>k\<close>.
\<close>

theorem verify_hmac_raises_on_non_ascii_signature:
  "snd (verify_hmac L (PStr []) (PStr [CHR 0xC3, CHR 0xA9]) (PStr ''k''))
     = Inl (TypeError ''compare_digest'' (PStr [CHR 0xC3, CHR 0xA9]))"
  by (simp add: verify_hmac_def run_simps is_ascii_def)

section \<open>The small world\<close>

lemma demo_environ_param: "environ demo ''HMAC_SECRET_KEY_PARAM'' = Some ''/run-task/hmac-key''"
  by (simp add: demo_def demo_environ_def)

lemma demo_secret: "snd (get_parameter demo ''/run-task/hmac-key'') = Inr (PStr ''s3cret'')"
  by (simp add: get_parameter_def run_simps parameter_request_def demo_def demo_urlopen_def
      demo_json_loads_def demo_documents_def dict_item_def)

lemma demo_loads_handshake:
  "json_loads demo (PStr handshake_body)
     = Inr (PDict [(''task_result_enforcement_level'', PStr ''test'')])"
  by (simp add: demo_def demo_json_loads_def demo_documents_def handshake_body_def)

lemma demo_signed_headers:
  "py_get (dict_get (signed_event raw) ''headers'' (PDict [])) ''x-tfc-task-signature'' (PStr [])
     = Inr (PStr (demo_signature raw))"
  by (simp add: signed_event_def dict_get_def)

lemma demo_signed_body: "map_of (signed_event raw) ''body'' = Some (PStr raw)"
  by (simp add: signed_event_def)

lemma plain_secret: "\<not> has_surrogate ''s3cret''"
  by simp

lemma plain_handshake_body: "\<not> has_surrogate handshake_body"
  by (simp add: handshake_body_def)

lemma plain_even_body: "\<not> has_surrogate even_body"
  by (simp add: even_body_def)

lemma plain_unreachable_plan_body: "\<not> has_surrogate unreachable_plan_body"
  by (simp add: unreachable_plan_body_def)

lemma plain_unreachable_callback_body: "\<not> has_surrogate unreachable_callback_body"
  by (simp add: unreachable_callback_body_def)

lemma demo_verified:
  "\<not> has_surrogate raw \<Longrightarrow>
   snd (verify_hmac demo (PStr raw) (PStr (demo_signature raw)) (PStr ''s3cret'')) = Inr True"
  using verify_hmac_accepts [of "''s3cret''" raw demo]
  by (simp add: demo_signature_def demo_def)

lemmas verified_handshake = demo_verified [OF plain_handshake_body]

lemmas verified_even = demo_verified [OF plain_even_body]

lemmas verified_unreachable_plan = demo_verified [OF plain_unreachable_plan_body]

lemmas verified_unreachable_callback = demo_verified [OF plain_unreachable_callback_body]

lemma demo_loads_even: "json_loads demo (PStr even_body) = Inr (PDict even_fields)"
  by (simp add: demo_def demo_json_loads_def demo_documents_def handshake_body_def even_body_def)

lemma demo_loads_unreachable_plan:
  "json_loads demo (PStr unreachable_plan_body) = Inr (PDict unreachable_plan_fields)"
  by (simp add: demo_def demo_json_loads_def demo_documents_def handshake_body_def even_body_def
      odd_body_def unreachable_plan_body_def)

lemma demo_loads_unreachable_callback:
  "json_loads demo (PStr unreachable_callback_body) = Inr (PDict unreachable_callback_fields)"
  by (simp add: demo_def demo_json_loads_def demo_documents_def handshake_body_def even_body_def
      odd_body_def unreachable_plan_body_def unreachable_callback_body_def)

lemma demo_loads_empty: "json_loads demo (PStr ''{}'') = Inr (PDict [])"
  by (simp add: demo_def demo_json_loads_def demo_documents_def)

lemma demo_plan_even: "snd (get_plan_json demo (PDict even_fields)) = Inr even_plan"
  by (simp add: get_plan_json_def run_simps plan_request_def demo_def demo_urlopen_def
      demo_json_loads_def demo_documents_def even_fields_def dict_get_def)

lemma demo_plan_odd:
  "snd (get_plan_json demo (PDict unreachable_callback_fields)) = Inr odd_plan"
  by (simp add: get_plan_json_def run_simps plan_request_def demo_def demo_urlopen_def
      demo_json_loads_def demo_documents_def unreachable_callback_fields_def dict_get_def)

lemma demo_plan_gone:
  "snd (get_plan_json demo (PDict unreachable_plan_fields)) = Inl (Raised ''urlopen error'')"
  by (simp add: get_plan_json_def run_simps plan_request_def demo_def demo_urlopen_def
      unreachable_plan_fields_def dict_get_def)

lemma demo_timestamp_even:
  "py_item even_plan ''timestamp'' = Inr (PStr ''2024-01-01T10:14:00+00:00'')"
  by (simp add: even_plan_def dict_item_def)

lemma demo_timestamp_odd:
  "py_item odd_plan ''timestamp'' = Inr (PStr ''2024-01-01T10:15:00+00:00'')"
  by (simp add: odd_plan_def dict_item_def)

lemma demo_datetime_even:
  "fromisoformat demo (PStr ''2024-01-01T10:14:00+00:00'')
     = Inr \<lparr>year = 2024, month = 1, day = 1, hour = 10, minute = 14, second = 0\<rparr>"
  by (simp add: demo_def demo_fromisoformat_def)

lemma demo_datetime_odd:
  "fromisoformat demo (PStr ''2024-01-01T10:15:00+00:00'')
     = Inr \<lparr>year = 2024, month = 1, day = 1, hour = 10, minute = 15, second = 0\<rparr>"
  by (simp add: demo_def demo_fromisoformat_def)

lemma demo_notify_even:
  "snd (notify_result demo (PDict even_fields) st msg) = Inr ()"
  by (simp add: notify_result_def run_simps callback_request_def demo_def demo_urlopen_def
      even_fields_def dict_get_def)

lemma demo_notify_down:
  "snd (notify_result demo (PDict unreachable_callback_fields) st msg)
     = Inl (Raised ''urlopen error'')"
  by (simp add: notify_result_def run_simps callback_request_def demo_def demo_urlopen_def
      unreachable_callback_fields_def dict_get_def)

lemma even_not_handshake:
  "dict_get even_fields ''task_result_enforcement_level'' PNone \<noteq> PStr ''test''"
  by (simp add: even_fields_def dict_get_def)

lemma unreachable_plan_not_handshake:
  "dict_get unreachable_plan_fields ''task_result_enforcement_level'' PNone \<noteq> PStr ''test''"
  by (simp add: unreachable_plan_fields_def dict_get_def)

lemma unreachable_callback_not_handshake:
  "dict_get unreachable_callback_fields ''task_result_enforcement_level'' PNone \<noteq> PStr ''test''"
  by (simp add: unreachable_callback_fields_def dict_get_def)

lemma plain_odd_body: "\<not> has_surrogate odd_body"
  by (simp add: odd_body_def)

lemmas verified_odd = demo_verified [OF plain_odd_body]

lemma demo_loads_odd: "json_loads demo (PStr odd_body) = Inr (PDict odd_fields)"
  by (simp add: demo_def demo_json_loads_def demo_documents_def handshake_body_def even_body_def
      odd_body_def)

lemma demo_plan_odd_up: "snd (get_plan_json demo (PDict odd_fields)) = Inr odd_plan"
  by (simp add: get_plan_json_def run_simps plan_request_def demo_def demo_urlopen_def
      demo_json_loads_def demo_documents_def odd_fields_def dict_get_def)

lemma demo_notify_odd:
  "snd (notify_result demo (PDict odd_fields) st msg) = Inr ()"
  by (simp add: notify_result_def run_simps callback_request_def demo_def demo_urlopen_def
      odd_fields_def dict_get_def)

lemma odd_not_handshake:
  "dict_get odd_fields ''task_result_enforcement_level'' PNone \<noteq> PStr ''test''"
  by (simp add: odd_fields_def dict_get_def)


lemma bodyless_headers:
  "py_get (dict_get bodyless_event ''headers'' (PDict [])) ''x-tfc-task-signature'' (PStr [])
     = Inr (PStr (demo_signature ''{}''))"
  by (simp add: bodyless_event_def dict_get_def)



lemma demo_down_environ_param:
  "environ demo_down ''HMAC_SECRET_KEY_PARAM'' = Some ''/run-task/hmac-key''"
  by (simp add: demo_down_def demo_def demo_environ_def)

lemma demo_down_secret:
  "snd (get_parameter demo_down ''/run-task/hmac-key'') = Inr (PStr ''s3cret'')"
  by (simp add: get_parameter_def run_simps parameter_request_def demo_down_def demo_def
      demo_urlopen_def demo_json_loads_def demo_documents_def dict_item_def)

lemma demo_down_loads_even: "json_loads demo_down (PStr even_body) = Inr (PDict even_fields)"
  using demo_loads_even by (simp add: demo_down_def)

lemma demo_down_verified:
  "snd (verify_hmac demo_down (PStr even_body) (PStr (demo_signature even_body)) (PStr ''s3cret''))
     = Inr True"
  using verify_hmac_accepts [of "''s3cret''" even_body demo_down] plain_even_body
  by (simp add: demo_signature_def demo_down_def demo_def)

lemma demo_down_plan_even: "snd (get_plan_json demo_down (PDict even_fields)) = Inr even_plan"
  by (simp add: get_plan_json_def run_simps plan_request_def demo_down_def demo_def
      demo_urlopen_def demo_json_loads_def demo_documents_def even_fields_def dict_get_def)

lemma demo_down_datetime_even:
  "fromisoformat demo_down (PStr ''2024-01-01T10:14:00+00:00'')
     = Inr \<lparr>year = 2024, month = 1, day = 1, hour = 10, minute = 14, second = 0\<rparr>"
  using demo_datetime_even by (simp add: demo_down_def)

section \<open>The handler: rejected signatures\<close>

text \<open>
  C1. An event whose signature header is an ASCII string other than the hexadecimal
  HMAC-SHA512 of the raw body under the resolved secret is answered with status 401
  and the body \<^verbatim>\<open>{"message": "Invalid signature"}\<close>, provided the steps before the
  comparison go through: the secret resolves to a string, the event has a string body
  that parses as JSON, the headers are a dict, and the secret and the body can be
  encoded (they hold no lone surrogate). The only calls of the run are the secret
  retrieval and the verification: the plan is not fetched and no result is notified.
\<close>

theorem bad_signature_unauthenticated:
  assumes "environ L ''HMAC_SECRET_KEY_PARAM'' = Some name"
    and "snd (get_parameter L name) = Inr (PStr secret)"
    and "map_of event ''body'' = Some (PStr raw)"
    and "json_loads L (PStr raw) = Inr rb"
    and "py_get (dict_get event ''headers'' (PDict [])) ''x-tfc-task-signature'' (PStr [])
           = Inr (PStr sg)"
    and "\<not> has_surrogate secret"
    and "\<not> has_surrogate raw"
    and "is_ascii sg"
    and "sg \<noteq> hexdigest (hmac_sha512 L secret raw)"
  shows "handler L event =
           ([Get_parameter name, Urlopen (parameter_request L name),
             Verify_hmac (PStr raw) (PStr sg) (PStr secret)],
            \<lparr>statusCode = 401,
             body = json_dumps L (PDict [(''message'', PStr ''Invalid signature'')])\<rparr>)
         \<and> plan_fetches (fst (handler L event)) = []
         \<and> notifications (fst (handler L event)) = []"
proof -
  have v: "snd (verify_hmac L (PStr raw) (PStr sg) (PStr secret)) = Inr False"
    using assms(6-9) by (rule verify_hmac_rejects)
  have t: "handler_try L event =
      ([Get_parameter name, Urlopen (parameter_request L name),
             Verify_hmac (PStr raw) (PStr sg) (PStr secret)],
       Inr \<lparr>statusCode = 401,
             body = json_dumps L (PDict [(''message'', PStr ''Invalid signature'')])\<rparr>)"
    using assms(1-5) v
    by (simp add: prod_eq_iff handler_try_def run_simps fst_get_parameter fst_verify_hmac
        dict_item_def dict_get_def)
  show ?thesis
    by (simp add: handler_def t)
qed

text \<open>
  C1, at an input: the event with the handshake body and the signature \<^verbatim>\<open>bad\<close>.
  The body of the answer is the text \<^verbatim>\<open>json.dumps\<close> writes.
\<close>

theorem bad_signature_unauthenticated_witness:
  \<open>\<not> has_surrogate ''s3cret'' \<and> \<not> has_surrogate handshake_body \<and> is_ascii ''bad''
   \<and> ''bad'' \<noteq> hexdigest (hmac_sha512 demo ''s3cret'' handshake_body)
   \<and> handler demo forged_event =
       ([Get_parameter ''/run-task/hmac-key'',
         Urlopen (parameter_request demo ''/run-task/hmac-key''),
         Verify_hmac (PStr handshake_body) (PStr ''bad'') (PStr ''s3cret'')],
        \<lparr>statusCode = 401, body = ''{"message": "Invalid signature"}''\<rparr>)
   \<and> plan_fetches (fst (handler demo forged_event)) = []
   \<and> notifications (fst (handler demo forged_event)) = []\<close>
proof -
  have b: "map_of forged_event ''body'' = Some (PStr handshake_body)"
    by (simp add: forged_event_def)
  have h: "py_get (dict_get forged_event ''headers'' (PDict [])) ''x-tfc-task-signature'' (PStr [])
             = Inr (PStr ''bad'')"
    by (simp add: forged_event_def dict_get_def)
  have a: "is_ascii ''bad''"
    by (simp add: is_ascii_def)
  have n: "''bad'' \<noteq> hexdigest (hmac_sha512 demo ''s3cret'' handshake_body)"
    by (rule hexdigest_neq) simp
  have j: \<open>json_dumps demo (PDict [(''message'', PStr ''Invalid signature'')])
             = ''{"message": "Invalid signature"}''\<close>
    by (simp add: demo_def quoted_def)
  show ?thesis
    using bad_signature_unauthenticated [OF demo_environ_param demo_secret b demo_loads_handshake h
        plain_secret plain_handshake_body a n] plain_secret plain_handshake_body a n
    by (simp add: j)
qed

text \<open>
  C1 as it was stated, for every event with a wrong signature, fails: the body is
  parsed before the signature is verified (line 133 before line 138), so a body that
  is not JSON is answered with status 500 whatever the signature, and the verifier is
  not even called.
\<close>

theorem malformed_body_bad_signature_counterexample:
  "''bad'' \<noteq> hexdigest (hmac_sha512 demo ''s3cret'' ''not json'')
   \<and> statusCode (snd (handler demo malformed_event)) = 500
   \<and> statusCode (snd (handler demo malformed_event)) \<noteq> 401
   \<and> fst (handler demo malformed_event) =
       [Get_parameter ''/run-task/hmac-key'',
        Urlopen (parameter_request demo ''/run-task/hmac-key'')]"
proof -
  have n: "''bad'' \<noteq> hexdigest (hmac_sha512 demo ''s3cret'' ''not json'')"
    by (rule hexdigest_neq) simp
  have l: "json_loads demo (PStr ''not json'') = Inl (Raised ''JSONDecodeError'')"
    by (simp add: demo_def demo_json_loads_def demo_documents_def handshake_body_def even_body_def
        odd_body_def unreachable_plan_body_def unreachable_callback_body_def)
  have s: "snd (handler_try demo malformed_event) = Inl (Raised ''JSONDecodeError'')"
    using demo_environ_param demo_secret l
    by (simp add: handler_try_def run_simps malformed_event_def dict_get_def)
  have f: "fst (handler_try demo malformed_event) =
       [Get_parameter ''/run-task/hmac-key'',
        Urlopen (parameter_request demo ''/run-task/hmac-key'')]"
    using demo_environ_param demo_secret l
    by (simp add: handler_try_def run_simps fst_get_parameter malformed_event_def dict_get_def)
  show ?thesis
    using n s f by (simp add: handler_def internal_error_def)
qed

section \<open>The handler: outcome and calls\<close>

text \<open>
  The handler makes the calls of the \<^verbatim>\<open>try\<close> body and answers with its response, or
  with the 500 response for the exception that ended it.
\<close>

lemma fst_handler: "fst (handler L event) = fst (handler_try L event)"
  by (simp add: handler_def split: sum.split)

lemma snd_handler:
  "snd (handler L event) =
     (case snd (handler_try L event) of Inl e \<Rightarrow> internal_error L e | Inr r \<Rightarrow> r)"
  by (simp add: handler_def split: sum.split)

text \<open>
  A run that passes the verification and is not a handshake, with a plan document whose
  timestamp parses: the calls are those of the secret retrieval, the verification, the
  plan fetch and the notification, and the outcome is that of the notification.
\<close>

lemma validation_run:
  assumes "environ L ''HMAC_SECRET_KEY_PARAM'' = Some name"
    and "snd (get_parameter L name) = Inr key"
    and "map_of event ''body'' = Some raw"
    and "json_loads L raw = Inr (PDict d)"
    and "py_get (dict_get event ''headers'' (PDict [])) ''x-tfc-task-signature'' (PStr [])
           = Inr sg"
    and "snd (verify_hmac L raw sg key) = Inr True"
    and "dict_get d ''task_result_enforcement_level'' PNone \<noteq> PStr ''test''"
    and "snd (get_plan_json L (PDict d)) = Inr plan"
    and "py_item plan ''timestamp'' = Inr ts"
    and "fromisoformat L ts = Inr dt"
    and "st = (if minute dt mod 2 = 0 then ''passed'' else ''failed'')"
    and "msg = (if minute dt mod 2 = 0 then ''Validation passed'' else ''Validation failed'')"
  shows "fst (handler_try L event) =
           [Get_parameter name, Urlopen (parameter_request L name), Verify_hmac raw sg key]
           @ fst (get_plan_json L (PDict d)) @ fst (notify_result L (PDict d) st msg)"
    and "snd (handler_try L event) =
           (case snd (notify_result L (PDict d) st msg) of
              Inl e \<Rightarrow> Inl e
            | Inr u \<Rightarrow> Inr \<lparr>statusCode = 200, body = json_dumps L
                (PDict [(''data'',
                   PDict [(''type'', PStr ''task-results''),
                          (''attributes'',
                           PDict [(''status'', PStr st), (''message'', PStr msg)])])])\<rparr>)"
  using assms
  by (simp_all add: handler_try_def run_simps fst_get_parameter fst_verify_hmac
      dict_item_def dict_get_def Let_def split: sum.split)

lemma validation_outcome:
  assumes "environ L ''HMAC_SECRET_KEY_PARAM'' = Some name"
    and "snd (get_parameter L name) = Inr key"
    and "map_of event ''body'' = Some raw"
    and "json_loads L raw = Inr (PDict d)"
    and "py_get (dict_get event ''headers'' (PDict [])) ''x-tfc-task-signature'' (PStr [])
           = Inr sg"
    and "snd (verify_hmac L raw sg key) = Inr True"
    and "dict_get d ''task_result_enforcement_level'' PNone \<noteq> PStr ''test''"
    and "snd (get_plan_json L (PDict d)) = Inr plan"
    and "py_item plan ''timestamp'' = Inr ts"
    and "fromisoformat L ts = Inr dt"
  shows "map outcome (notifications (fst (handler L event))) =
           [if minute dt mod 2 = 0 then (''passed'', ''Validation passed'')
            else (''failed'', ''Validation failed'')]"
  using validation_run(1) [OF assms refl refl]
  by (simp add: fst_handler append_simps calls_get_plan_json calls_notify_result outcome_def)

lemma demo_handshake_verifications:
  "verifications (fst (handler demo (signed_event handshake_body)))
     = [(PStr handshake_body, PStr (demo_signature handshake_body), PStr ''s3cret'')]"
  using demo_environ_param demo_secret demo_loads_handshake
  by (simp add: fst_handler handler_try_def run_simps append_simps fst_get_parameter
      fst_verify_hmac signed_event_def dict_get_def dict_item_def verified_handshake)

text \<open>
  The verification is the only way to the outbound calls: in every run, for every
  event, environment and library, a plan fetch or a notification is preceded by one
  call of \<^verbatim>\<open>verify_hmac\<close> that returned true.
\<close>

lemma outbound_calls_need_verification:
  assumes "plan_fetches (fst (handler L event)) \<noteq> []
           \<or> notifications (fst (handler L event)) \<noteq> []"
  shows "\<exists>p s k. verifications (fst (handler L event)) = [(p, s, k)]
           \<and> snd (verify_hmac L p s k) = Inr True"
proof -
  let ?quiet = "plan_fetches (fst (handler_try L event)) = []
                \<and> notifications (fst (handler_try L event)) = []"
  note defs = handler_try_def run_simps append_simps fst_get_parameter fst_verify_hmac
    calls_get_plan_json calls_notify_result dict_item_def Let_def
  have loud: "\<not> ?quiet"
    using assms by (simp add: fst_handler)
  show ?thesis
  proof (cases "environ L ''HMAC_SECRET_KEY_PARAM''")
    case None
    then have ?quiet by (simp add: defs)
    with loud show ?thesis by blast
  next
    case name: (Some name)
    show ?thesis
    proof (cases "snd (get_parameter L name)")
      case (Inl e)
      with name have ?quiet by (simp add: defs)
      with loud show ?thesis by blast
    next
      case key: (Inr key)
      show ?thesis
      proof (cases "json_loads L (dict_get event ''body'' (PStr ''{}''))")
        case (Inl e)
        with name key have ?quiet by (simp add: defs)
        with loud show ?thesis by blast
      next
        case rb: (Inr rb)
        show ?thesis
        proof (cases "py_get (dict_get event ''headers'' (PDict [])) ''x-tfc-task-signature''
                        (PStr [])")
          case (Inl e)
          with name key rb have ?quiet by (simp add: defs)
          with loud show ?thesis by blast
        next
          case sg: (Inr sg)
          show ?thesis
          proof (cases "map_of event ''body''")
            case None
            with name key rb sg have ?quiet by (simp add: defs)
            with loud show ?thesis by blast
          next
            case raw: (Some raw)
            have v: "verifications (fst (handler_try L event)) = [(raw, sg, key)]"
              using name key rb sg raw by (simp add: defs split: sum.split)
            show ?thesis
            proof (cases "snd (verify_hmac L raw sg key) = Inr True")
              case True
              with v show ?thesis by (simp add: fst_handler)
            next
              case False
              with name key rb sg raw have ?quiet
                by (simp add: defs split: sum.split)
              with loud show ?thesis by blast
            qed
          qed
        qed
      qed
    qed
  qed
qed

section \<open>The handler: the signature header\<close>




text \<open>
  C6. Whenever the handler calls \<^verbatim>\<open>verify_hmac\<close>, the payload is the value stored
  under \<^verbatim>\<open>body\<close> in the event, as received: not the parsed body and not a
  serialization of it.
\<close>

theorem payload_is_raw_body:
  assumes "(p, s, k) \<in> set (verifications (fst (handler L event)))"
  shows "map_of event ''body'' = Some p"
  using assms
  by (auto simp: fst_handler handler_try_def run_simps append_simps fst_get_parameter
      fst_verify_hmac calls_get_plan_json calls_notify_result dict_item_def Let_def
      split: sum.splits option.splits if_splits)

text \<open>
  C6, at an input: the signed handshake event.
\<close>

theorem payload_is_raw_body_witness:
  "(PStr handshake_body, PStr (demo_signature handshake_body), PStr ''s3cret'')
     \<in> set (verifications (fst (handler demo (signed_event handshake_body))))
   \<and> map_of (signed_event handshake_body) ''body'' = Some (PStr handshake_body)"
proof -
  have m: "(PStr handshake_body, PStr (demo_signature handshake_body), PStr ''s3cret'')
     \<in> set (verifications (fst (handler demo (signed_event handshake_body))))"
    by (simp add: demo_handshake_verifications)
  show ?thesis
    using m payload_is_raw_body [OF m] by simp
qed

section \<open>The handler: handshake\<close>

text \<open>
  C3. A request that passes the verification and whose parsed body has
  \<^verbatim>\<open>task_result_enforcement_level\<close> equal to \<^verbatim>\<open>"test"\<close> is answered with status
  200 and the attributes status \<^verbatim>\<open>passed\<close>, message \<^verbatim>\<open>Configuration successful\<close>;
  the calls of the run are the secret retrieval and the verification only.
\<close>

theorem handshake_accepted:
  assumes "environ L ''HMAC_SECRET_KEY_PARAM'' = Some name"
    and "snd (get_parameter L name) = Inr key"
    and "map_of event ''body'' = Some raw"
    and "json_loads L raw = Inr (PDict d)"
    and "py_get (dict_get event ''headers'' (PDict [])) ''x-tfc-task-signature'' (PStr [])
           = Inr sg"
    and "snd (verify_hmac L raw sg key) = Inr True"
    and "dict_get d ''task_result_enforcement_level'' PNone = PStr ''test''"
  shows "handler L event =
           ([Get_parameter name, Urlopen (parameter_request L name), Verify_hmac raw sg key],
            \<lparr>statusCode = 200,
             body = json_dumps L
                 (PDict [(''data'',
                    PDict [(''type'', PStr ''task-results''),
                           (''attributes'',
                            PDict [(''status'', PStr ''passed''), (''message'', PStr ''Configuration successful'')])])])\<rparr>)
         \<and> plan_fetches (fst (handler L event)) = []
         \<and> notifications (fst (handler L event)) = []"
proof -
  have t: "handler_try L event =
      ([Get_parameter name, Urlopen (parameter_request L name), Verify_hmac raw sg key],
       Inr \<lparr>statusCode = 200,
             body = json_dumps L
                 (PDict [(''data'',
                    PDict [(''type'', PStr ''task-results''),
                           (''attributes'',
                            PDict [(''status'', PStr ''passed''), (''message'', PStr ''Configuration successful'')])])])\<rparr>)"
    using assms
    by (simp add: prod_eq_iff handler_try_def run_simps fst_get_parameter fst_verify_hmac
        dict_item_def dict_get_def)
  show ?thesis
    by (simp add: handler_def t)
qed

text \<open>
  C3, at an input: the signed handshake event, with the text of the answer.
\<close>

theorem handshake_accepted_witness:
  \<open>handler demo (signed_event handshake_body) =
     ([Get_parameter ''/run-task/hmac-key'',
       Urlopen (parameter_request demo ''/run-task/hmac-key''),
       Verify_hmac (PStr handshake_body) (PStr (demo_signature handshake_body)) (PStr ''s3cret'')],
      \<lparr>statusCode = 200,
       body = ''{"data": {"type": "task-results", "attributes": {"status": "passed", "message": "Configuration successful"}}}''\<rparr>)
   \<and> plan_fetches (fst (handler demo (signed_event handshake_body))) = []
   \<and> notifications (fst (handler demo (signed_event handshake_body))) = []\<close>
proof -
  have l: "dict_get [(''task_result_enforcement_level'', PStr ''test'')]
             ''task_result_enforcement_level'' PNone = PStr ''test''"
    by (simp add: dict_get_def)
  have j: \<open>json_dumps demo
             (PDict [(''data'',
                PDict [(''type'', PStr ''task-results''),
                       (''attributes'',
                        PDict [(''status'', PStr ''passed''),
                               (''message'', PStr ''Configuration successful'')])])])
           = ''{"data": {"type": "task-results", "attributes": {"status": "passed", "message": "Configuration successful"}}}''\<close>
    by (simp add: demo_def quoted_def)
  show ?thesis
    using handshake_accepted [OF demo_environ_param demo_secret demo_signed_body
          demo_loads_handshake demo_signed_headers verified_handshake l]
    by (simp add: j)
qed

section \<open>The handler: validation\<close>

text \<open>
  C4. A request that passes the verification and is not a handshake, with a plan
  document whose timestamp parses: the notifier is called once, with \<^verbatim>\<open>passed\<close> and
  \<^verbatim>\<open>Validation passed\<close> when the minute is even and with \<^verbatim>\<open>failed\<close> and
  \<^verbatim>\<open>Validation failed\<close> when it is odd, and the 200 response, given when the
  notification returns, carries the same status and message in the task-results shape.
\<close>

theorem validation_by_minute_parity:
  assumes "environ L ''HMAC_SECRET_KEY_PARAM'' = Some name"
    and "snd (get_parameter L name) = Inr key"
    and "map_of event ''body'' = Some raw"
    and "json_loads L raw = Inr (PDict d)"
    and "py_get (dict_get event ''headers'' (PDict [])) ''x-tfc-task-signature'' (PStr [])
           = Inr sg"
    and "snd (verify_hmac L raw sg key) = Inr True"
    and "dict_get d ''task_result_enforcement_level'' PNone \<noteq> PStr ''test''"
    and "snd (get_plan_json L (PDict d)) = Inr plan"
    and "py_item plan ''timestamp'' = Inr ts"
    and "fromisoformat L ts = Inr dt"
    and "st = (if even (minute dt) then ''passed'' else ''failed'')"
    and "msg = (if even (minute dt) then ''Validation passed'' else ''Validation failed'')"
  shows "notifications (fst (handler L event)) = [(PDict d, st, msg)]
         \<and> snd (handler L event) =
             (case snd (notify_result L (PDict d) st msg) of
                Inl e \<Rightarrow> \<lparr>statusCode = 500,
                          body = json_dumps L (PDict [(''message'',
                                   PStr (''Internal error: '' @ str_exn L e))])\<rparr>
              | Inr u \<Rightarrow> \<lparr>statusCode = 200, body = json_dumps L
                  (PDict [(''data'',
                     PDict [(''type'', PStr ''task-results''),
                            (''attributes'',
                             PDict [(''status'', PStr st), (''message'', PStr msg)])])])\<rparr>)"
proof -
  have st: "st = (if minute dt mod 2 = 0 then ''passed'' else ''failed'')"
    using assms(11) by (simp add: even_iff_mod_2_eq_zero)
  have msg: "msg = (if minute dt mod 2 = 0 then ''Validation passed'' else ''Validation failed'')"
    using assms(12) by (simp add: even_iff_mod_2_eq_zero)
  note run = validation_run [OF assms(1-10) st msg]
  have "notifications (fst (handler L event)) = [(PDict d, st, msg)]"
    by (simp add: fst_handler run(1) append_simps calls_get_plan_json calls_notify_result)
  moreover have "snd (handler L event) =
             (case snd (notify_result L (PDict d) st msg) of
                Inl e \<Rightarrow> \<lparr>statusCode = 500,
                          body = json_dumps L (PDict [(''message'',
                                   PStr (''Internal error: '' @ str_exn L e))])\<rparr>
              | Inr u \<Rightarrow> \<lparr>statusCode = 200, body = json_dumps L
                  (PDict [(''data'',
                     PDict [(''type'', PStr ''task-results''),
                            (''attributes'',
                             PDict [(''status'', PStr st), (''message'', PStr msg)])])])\<rparr>)"
    by (simp add: snd_handler run(2) internal_error_def split: sum.split)
  ultimately show ?thesis by simp
qed

text \<open>
  C4, at two inputs: the signed requests for the plan of minute 14 and for the plan
  of minute 15, with the text of the two answers.
\<close>

theorem validation_by_minute_parity_witness:
  \<open>even (minute \<lparr>year = 2024, month = 1, day = 1, hour = 10, minute = 14, second = 0\<rparr>)
   \<and> notifications (fst (handler demo (signed_event even_body)))
       = [(PDict even_fields, ''passed'', ''Validation passed'')]
   \<and> snd (handler demo (signed_event even_body)) =
       \<lparr>statusCode = 200,
        body = ''{"data": {"type": "task-results", "attributes": {"status": "passed", "message": "Validation passed"}}}''\<rparr>
   \<and> odd (minute \<lparr>year = 2024, month = 1, day = 1, hour = 10, minute = 15, second = 0\<rparr>)
   \<and> notifications (fst (handler demo (signed_event odd_body)))
       = [(PDict odd_fields, ''failed'', ''Validation failed'')]
   \<and> snd (handler demo (signed_event odd_body)) =
       \<lparr>statusCode = 200,
        body = ''{"data": {"type": "task-results", "attributes": {"status": "failed", "message": "Validation failed"}}}''\<rparr>\<close>
proof -
  have s: "''passed'' = (if even (minute \<lparr>year = 2024, month = 1, day = 1, hour = 10,
                                          minute = 14, second = 0\<rparr>)
                         then ''passed'' else ''failed'')"
    by simp
  have m: "''Validation passed'' = (if even (minute \<lparr>year = 2024, month = 1, day = 1, hour = 10,
                                          minute = 14, second = 0\<rparr>)
                         then ''Validation passed'' else ''Validation failed'')"
    by simp
  have s': "''failed'' = (if even (minute \<lparr>year = 2024, month = 1, day = 1, hour = 10,
                                          minute = 15, second = 0\<rparr>)
                         then ''passed'' else ''failed'')"
    by simp
  have m': "''Validation failed'' = (if even (minute \<lparr>year = 2024, month = 1, day = 1, hour = 10,
                                          minute = 15, second = 0\<rparr>)
                         then ''Validation passed'' else ''Validation failed'')"
    by simp
  have j: \<open>json_dumps demo
             (PDict [(''data'',
                PDict [(''type'', PStr ''task-results''),
                       (''attributes'',
                        PDict [(''status'', PStr ''passed''),
                               (''message'', PStr ''Validation passed'')])])])
           = ''{"data": {"type": "task-results", "attributes": {"status": "passed", "message": "Validation passed"}}}''\<close>
    by (simp add: demo_def quoted_def)
  have j': \<open>json_dumps demo
             (PDict [(''data'',
                PDict [(''type'', PStr ''task-results''),
                       (''attributes'',
                        PDict [(''status'', PStr ''failed''),
                               (''message'', PStr ''Validation failed'')])])])
           = ''{"data": {"type": "task-results", "attributes": {"status": "failed", "message": "Validation failed"}}}''\<close>
    by (simp add: demo_def quoted_def)
  have e: "notifications (fst (handler demo (signed_event even_body)))
       = [(PDict even_fields, ''passed'', ''Validation passed'')]
   \<and> snd (handler demo (signed_event even_body)) =
       \<lparr>statusCode = 200,
        body = json_dumps demo
             (PDict [(''data'',
                PDict [(''type'', PStr ''task-results''),
                       (''attributes'',
                        PDict [(''status'', PStr ''passed''),
                               (''message'', PStr ''Validation passed'')])])])\<rparr>"
    using validation_by_minute_parity [OF demo_environ_param demo_secret demo_signed_body
        demo_loads_even demo_signed_headers verified_even even_not_handshake demo_plan_even
        demo_timestamp_even demo_datetime_even s m]
    by (simp add: demo_notify_even)
  have o: "notifications (fst (handler demo (signed_event odd_body)))
       = [(PDict odd_fields, ''failed'', ''Validation failed'')]
   \<and> snd (handler demo (signed_event odd_body)) =
       \<lparr>statusCode = 200,
        body = json_dumps demo
             (PDict [(''data'',
                PDict [(''type'', PStr ''task-results''),
                       (''attributes'',
                        PDict [(''status'', PStr ''failed''),
                               (''message'', PStr ''Validation failed'')])])])\<rparr>"
    using validation_by_minute_parity [OF demo_environ_param demo_secret demo_signed_body
        demo_loads_odd demo_signed_headers verified_odd odd_not_handshake demo_plan_odd_up
        demo_timestamp_odd demo_datetime_odd s' m']
    by (simp add: demo_notify_odd)
  show ?thesis
    using e o by (simp add: j j')
qed

text \<open>
  C9. Two runs on the same event, in worlds that may differ in everything else, both
  passing the verification and fetching a plan: when the minutes of the two plan
  timestamps are equal, the status and message sent to the notifier are the same.
\<close>

theorem classification_deterministic:
  assumes "environ L1 ''HMAC_SECRET_KEY_PARAM'' = Some name1"
    and "snd (get_parameter L1 name1) = Inr key1"
    and "map_of event ''body'' = Some raw"
    and "json_loads L1 raw = Inr (PDict d1)"
    and "py_get (dict_get event ''headers'' (PDict [])) ''x-tfc-task-signature'' (PStr [])
           = Inr sg"
    and "snd (verify_hmac L1 raw sg key1) = Inr True"
    and "dict_get d1 ''task_result_enforcement_level'' PNone \<noteq> PStr ''test''"
    and "snd (get_plan_json L1 (PDict d1)) = Inr plan1"
    and "py_item plan1 ''timestamp'' = Inr ts1"
    and "fromisoformat L1 ts1 = Inr dt1"
    and "environ L2 ''HMAC_SECRET_KEY_PARAM'' = Some name2"
    and "snd (get_parameter L2 name2) = Inr key2"
    and "json_loads L2 raw = Inr (PDict d2)"
    and "snd (verify_hmac L2 raw sg key2) = Inr True"
    and "dict_get d2 ''task_result_enforcement_level'' PNone \<noteq> PStr ''test''"
    and "snd (get_plan_json L2 (PDict d2)) = Inr plan2"
    and "py_item plan2 ''timestamp'' = Inr ts2"
    and "fromisoformat L2 ts2 = Inr dt2"
    and "minute dt1 = minute dt2"
  shows "map outcome (notifications (fst (handler L1 event)))
           = map outcome (notifications (fst (handler L2 event)))"
proof -
  have "map outcome (notifications (fst (handler L1 event))) =
           [if minute dt1 mod 2 = 0 then (''passed'', ''Validation passed'')
            else (''failed'', ''Validation failed'')]"
    using assms(1-10) by (rule validation_outcome)
  moreover have "map outcome (notifications (fst (handler L2 event))) =
           [if minute dt2 mod 2 = 0 then (''passed'', ''Validation passed'')
            else (''failed'', ''Validation failed'')]"
    using assms(11,12,3,13,5,14-18) by (rule validation_outcome)
  ultimately show ?thesis
    using assms(19) by simp
qed

text \<open>
  C9, at an input: the request for the plan of minute 14, once with the callback URL
  in reach and once out of reach.
\<close>

theorem classification_deterministic_witness:
  "map outcome (notifications (fst (handler demo (signed_event even_body))))
     = map outcome (notifications (fst (handler demo_down (signed_event even_body))))
   \<and> map outcome (notifications (fst (handler demo (signed_event even_body))))
     = [(''passed'', ''Validation passed'')]"
proof -
  have e: "map outcome (notifications (fst (handler demo (signed_event even_body))))
     = map outcome (notifications (fst (handler demo_down (signed_event even_body))))"
    by (rule classification_deterministic [OF demo_environ_param demo_secret demo_signed_body
          demo_loads_even demo_signed_headers verified_even even_not_handshake demo_plan_even
          demo_timestamp_even demo_datetime_even demo_down_environ_param demo_down_secret
          demo_down_loads_even demo_down_verified even_not_handshake demo_down_plan_even
          demo_timestamp_even demo_down_datetime_even refl])
  have v: "map outcome (notifications (fst (handler demo (signed_event even_body))))
     = [(''passed'', ''Validation passed'')]"
    using validation_outcome [OF demo_environ_param demo_secret demo_signed_body
          demo_loads_even demo_signed_headers verified_even even_not_handshake demo_plan_even
          demo_timestamp_even demo_datetime_even]
    by simp
  show ?thesis
    using e v by simp
qed

section \<open>The handler: failures\<close>

text \<open>
  C7. A request that passes the verification and is not a handshake, and whose plan
  fetch raises: the answer is status 500 with the message \<^verbatim>\<open>Internal error: \<close>
  followed by the description of the exception, and the notifier is not called.
\<close>

theorem plan_fetch_failure:
  assumes "environ L ''HMAC_SECRET_KEY_PARAM'' = Some name"
    and "snd (get_parameter L name) = Inr key"
    and "map_of event ''body'' = Some raw"
    and "json_loads L raw = Inr (PDict d)"
    and "py_get (dict_get event ''headers'' (PDict [])) ''x-tfc-task-signature'' (PStr [])
           = Inr sg"
    and "snd (verify_hmac L raw sg key) = Inr True"
    and "dict_get d ''task_result_enforcement_level'' PNone \<noteq> PStr ''test''"
    and "snd (get_plan_json L (PDict d)) = Inl e"
  shows "snd (handler L event) =
           \<lparr>statusCode = 500,
            body = json_dumps L (PDict [(''message'', PStr (''Internal error: '' @ str_exn L e))])\<rparr>
         \<and> plan_fetches (fst (handler L event)) = [PDict d]
         \<and> notifications (fst (handler L event)) = []"
proof -
  have s: "snd (handler_try L event) = Inl e"
    using assms
    by (simp add: handler_try_def run_simps dict_item_def dict_get_def)
  have f: "fst (handler_try L event) =
      [Get_parameter name, Urlopen (parameter_request L name), Verify_hmac raw sg key]
      @ fst (get_plan_json L (PDict d))"
    using assms
    by (simp add: handler_try_def run_simps fst_get_parameter fst_verify_hmac
        dict_item_def dict_get_def)
  show ?thesis
    by (simp add: snd_handler fst_handler s f internal_error_def append_simps calls_get_plan_json)
qed

text \<open>
  C7, at an input: the signed request for a plan at a URL out of reach.
\<close>

theorem plan_fetch_failure_witness:
  "snd (handler demo (signed_event unreachable_plan_body)) =
     \<lparr>statusCode = 500,
      body = json_dumps demo (PDict [(''message'', PStr ''Internal error: urlopen error'')])\<rparr>
   \<and> plan_fetches (fst (handler demo (signed_event unreachable_plan_body)))
       = [PDict unreachable_plan_fields]
   \<and> notifications (fst (handler demo (signed_event unreachable_plan_body))) = []"
proof -
  have s: "str_exn demo (Raised ''urlopen error'') = ''urlopen error''"
    by (simp add: demo_def)
  show ?thesis
    using plan_fetch_failure [OF demo_environ_param demo_secret demo_signed_body
        demo_loads_unreachable_plan demo_signed_headers verified_unreachable_plan
        unreachable_plan_not_handshake demo_plan_gone]
    by (simp add: s)
qed

text \<open>
  C8. When the notification raises, the answer is status 500 with the message
  \<^verbatim>\<open>Internal error: \<close> followed by the description of the exception, not the 200
  response of the validation.
\<close>

theorem notification_failure:
  assumes "environ L ''HMAC_SECRET_KEY_PARAM'' = Some name"
    and "snd (get_parameter L name) = Inr key"
    and "map_of event ''body'' = Some raw"
    and "json_loads L raw = Inr (PDict d)"
    and "py_get (dict_get event ''headers'' (PDict [])) ''x-tfc-task-signature'' (PStr [])
           = Inr sg"
    and "snd (verify_hmac L raw sg key) = Inr True"
    and "dict_get d ''task_result_enforcement_level'' PNone \<noteq> PStr ''test''"
    and "snd (get_plan_json L (PDict d)) = Inr plan"
    and "py_item plan ''timestamp'' = Inr ts"
    and "fromisoformat L ts = Inr dt"
    and "st = (if even (minute dt) then ''passed'' else ''failed'')"
    and "msg = (if even (minute dt) then ''Validation passed'' else ''Validation failed'')"
    and "snd (notify_result L (PDict d) st msg) = Inl e"
  shows "snd (handler L event) =
           \<lparr>statusCode = 500,
            body = json_dumps L (PDict [(''message'', PStr (''Internal error: '' @ str_exn L e))])\<rparr>
         \<and> notifications (fst (handler L event)) = [(PDict d, st, msg)]"
proof -
  have st: "st = (if minute dt mod 2 = 0 then ''passed'' else ''failed'')"
    using assms(11) by (simp add: even_iff_mod_2_eq_zero)
  have msg: "msg = (if minute dt mod 2 = 0 then ''Validation passed'' else ''Validation failed'')"
    using assms(12) by (simp add: even_iff_mod_2_eq_zero)
  note run = validation_run [OF assms(1-10) st msg]
  show ?thesis
    using assms(13)
    by (simp add: snd_handler fst_handler run internal_error_def append_simps
        calls_get_plan_json calls_notify_result)
qed

text \<open>
  C8, at an input: the signed request for the plan of minute 15 with a callback URL
  out of reach.
\<close>

theorem notification_failure_witness:
  "snd (handler demo (signed_event unreachable_callback_body)) =
     \<lparr>statusCode = 500,
      body = json_dumps demo (PDict [(''message'', PStr ''Internal error: urlopen error'')])\<rparr>
   \<and> notifications (fst (handler demo (signed_event unreachable_callback_body)))
       = [(PDict unreachable_callback_fields, ''failed'', ''Validation failed'')]"
proof -
  have s: "''failed'' = (if even (minute \<lparr>year = 2024, month = 1, day = 1, hour = 10,
                                          minute = 15, second = 0\<rparr>)
                         then ''passed'' else ''failed'')"
    by simp
  have m: "''Validation failed'' = (if even (minute \<lparr>year = 2024, month = 1, day = 1, hour = 10,
                                          minute = 15, second = 0\<rparr>)
                         then ''Validation passed'' else ''Validation failed'')"
    by simp
  have x: "str_exn demo (Raised ''urlopen error'') = ''urlopen error''"
    by (simp add: demo_def)
  show ?thesis
    using notification_failure [OF demo_environ_param demo_secret demo_signed_body
        demo_loads_unreachable_callback demo_signed_headers verified_unreachable_callback
        unreachable_callback_not_handshake demo_plan_odd demo_timestamp_odd demo_datetime_odd
        s m demo_notify_down]
    by (simp add: x)
qed

text \<open>
  C10. An event without a \<^verbatim>\<open>body\<close> key is answered with status 500, whatever its
  headers: the verification is never called, nor the plan fetch, nor the notifier.
  When the steps before line 138 go through, the exception is the \<^verbatim>\<open>KeyError\<close> of
  \<^verbatim>\<open>event["body"]\<close>.
\<close>

theorem missing_body_internal_error:
  assumes "map_of event ''body'' = None"
  shows "statusCode (snd (handler L event)) = 500
         \<and> verifications (fst (handler L event)) = []
         \<and> plan_fetches (fst (handler L event)) = []
         \<and> notifications (fst (handler L event)) = []
         \<and> (environ L ''HMAC_SECRET_KEY_PARAM'' = Some name \<longrightarrow>
            snd (get_parameter L name) = Inr key \<longrightarrow>
            json_loads L (PStr ''{}'') = Inr rb \<longrightarrow>
            py_get (dict_get event ''headers'' (PDict [])) ''x-tfc-task-signature'' (PStr [])
              = Inr sg \<longrightarrow>
            snd (handler L event) =
              \<lparr>statusCode = 500,
               body = json_dumps L (PDict [(''message'',
                        PStr (''Internal error: '' @ str_exn L (KeyError ''body'')))])\<rparr>)"
proof -
  have s: "\<exists>e. snd (handler_try L event) = Inl e"
    using assms
    by (simp add: handler_try_def run_simps dict_item_def dict_get_def
        split: sum.split option.split)
  have f: "verifications (fst (handler_try L event)) = []
      \<and> plan_fetches (fst (handler_try L event)) = []
      \<and> notifications (fst (handler_try L event)) = []"
    using assms
    by (simp add: handler_try_def run_simps append_simps fst_get_parameter dict_item_def
        dict_get_def split: sum.split option.split)
  have k: "environ L ''HMAC_SECRET_KEY_PARAM'' = Some name \<Longrightarrow>
      snd (get_parameter L name) = Inr key \<Longrightarrow>
      json_loads L (PStr ''{}'') = Inr rb \<Longrightarrow>
      py_get (dict_get event ''headers'' (PDict [])) ''x-tfc-task-signature'' (PStr []) = Inr sg \<Longrightarrow>
      snd (handler_try L event) = Inl (KeyError ''body'')"
    using assms
    by (simp add: handler_try_def run_simps dict_item_def dict_get_def)
  from s obtain e where e: "snd (handler_try L event) = Inl e" by blast
  show ?thesis
    using f k by (auto simp: snd_handler fst_handler e internal_error_def)
qed

text \<open>
  C10, at an input: an event with headers only.
\<close>

theorem missing_body_internal_error_witness:
  "map_of bodyless_event ''body'' = None
   \<and> snd (handler demo bodyless_event) =
       \<lparr>statusCode = 500,
        body = json_dumps demo
                 (PDict [(''message'', PStr (''Internal error: '' @ [CHR 0x27] @ ''body'' @ [CHR 0x27]))])\<rparr>
   \<and> verifications (fst (handler demo bodyless_event)) = []
   \<and> plan_fetches (fst (handler demo bodyless_event)) = []
   \<and> notifications (fst (handler demo bodyless_event)) = []"
proof -
  have b: "map_of bodyless_event ''body'' = None"
    by (simp add: bodyless_event_def)
  have s: "str_exn demo (KeyError ''body'') = [CHR 0x27] @ ''body'' @ [CHR 0x27]"
    by (simp add: demo_def)
  show ?thesis
    using missing_body_internal_error [OF b, of demo "''/run-task/hmac-key''" "PStr ''s3cret''"
        "PDict []" "PStr (demo_signature ''{}'')"]
      demo_environ_param demo_secret demo_loads_empty bodyless_headers b s
    by simp
qed

end
